theory Spec2Isabelle
  imports Main
begin

section \<open>The Remootio cover entity (custom\_components/remootio/cover.py)\<close>

text \<open>
  The module adapts a client object of the library \<^verbatim>\<open>aioremootio\<close> to a cover
  entity of the host platform. Everything it does is a read of an attribute of an
  object it does not own, or a call of a method it does not own. The embedding keeps
  the two apart:
  \<^item> the objects of the module itself (the cover entity and its two listeners) are
    values with the fields that the module assigns;
  \<^item> the objects of the client library and of the host are handles, and their
    attributes are read from the current external world through an interface
    (\<open>external\<close>) that is a parameter of every operation;
  \<^item> every call of a method of the client library, of the host or of the logger goes
    through \<open>do_call\<close>, which appends the call to a trace and asks the interface
    whether the call returns or raises and how it changes the external world.
\<close>

subsection \<open>Values of the collaborators\<close>

text \<open>
  \<^verbatim>\<open>aioremootio.State\<close>. The source names four members; the enumeration
  itself is not part of the module, so every other member is \<open>OtherState\<close> with
  its name. Members of a Python \<^verbatim>\<open>Enum\<close> are equal only to themselves, as
  the constructors are.
\<close>

datatype State = OPENING | CLOSING | CLOSED | NO_SENSOR_INSTALLED | OtherState string

text \<open>
  \<^verbatim>\<open>aioremootio.EventType\<close>: the source names one member. \<open>name\<close> of the
  member is Python's \<^verbatim>\<open>EventType.name\<close>.
\<close>

datatype EventType = LEFT_OPEN | OtherEventType string

fun EventType_name :: "EventType \<Rightarrow> string" where
  "EventType_name LEFT_OPEN = ''LEFT_OPEN''"
| "EventType_name (OtherEventType n) = n"

text \<open>An event of the device; only its \<^verbatim>\<open>type\<close> is read.\<close>

record Event =
  type :: EventType

text \<open>Handles of the objects owned by the client library and by the host.\<close>

datatype RemootioClient = RemootioClient nat

datatype HomeAssistant = HomeAssistant nat

text \<open>Python values of attributes whose type is \<^verbatim>\<open>str | int | None\<close>.\<close>

datatype pyval = PyNone | PyStr string | PyInt int

text \<open>Python's \<^verbatim>\<open>str()\<close> on these values.\<close>

definition digit_char :: "nat \<Rightarrow> char" where
  "digit_char d = char_of (48 + d)"

fun str_nat :: "nat \<Rightarrow> string" where
  "str_nat n = (if n < 10 then [digit_char n] else str_nat (n div 10) @ [digit_char (n mod 10)])"

declare str_nat.simps [simp del]

definition str_int :: "int \<Rightarrow> string" where
  "str_int i = (if i < 0 then CHR ''-'' # str_nat (nat (- i)) else str_nat (nat i))"

fun str :: "pyval \<Rightarrow> string" where
  "str PyNone = ''None''"
| "str (PyStr s) = s"
| "str (PyInt i) = str_int i"

text \<open>
  Python's \<^verbatim>\<open>str.lower()\<close> on ASCII text: the letters A to Z are mapped to
  a to z, every other byte is kept.
\<close>

definition lower_char :: "char \<Rightarrow> char" where
  "lower_char c =
     (let n = of_char c :: nat in if 65 \<le> n \<and> n \<le> 90 then char_of (n + 32) else c)"

definition lower :: "string \<Rightarrow> string" where
  "lower s = map lower_char s"

text \<open>
  The configuration entry of the host. \<^verbatim>\<open>data\<close> is a read-only mapping; the
  source annotates the two values it reads as \<^verbatim>\<open>str\<close> and as the string
  enumeration \<^verbatim>\<open>CoverDeviceClass\<close>.
\<close>

record ConfigEntry =
  data :: "string \<rightharpoonup> string"
  entry_id :: string
  title :: string

text \<open>
  The constants the module imports. \<open>ATTR_SERIAL_NUMBER\<close>, \<open>CONF_SERIAL_NUMBER\<close>,
  \<open>DOMAIN\<close> and \<open>REMOOTIO_CLIENT\<close> come from the package's own \<^verbatim>\<open>const\<close>
  module, the other three from \<^verbatim>\<open>homeassistant.const\<close>. Neither module is part
  of the file, so the constants are parameters.
\<close>

record constants =
  ATTR_SERIAL_NUMBER :: string
  CONF_SERIAL_NUMBER :: string
  DOMAIN :: string
  REMOOTIO_CLIENT :: string
  ATTR_ENTITY_ID :: string
  ATTR_NAME :: string
  CONF_DEVICE_CLASS :: string

subsection \<open>The objects of the module\<close>

text \<open>\<^verbatim>\<open>DeviceInfo(identifiers=..., name=..., manufacturer=..., model=..., sw_version=...)\<close>\<close>

record DeviceInfo =
  identifiers :: "(string \<times> string) set"
  name :: string
  manufacturer :: string
  model :: string
  sw_version :: string

text \<open>
  \<^verbatim>\<open>class RemootioCover(CoverEntity)\<close>: the four fields that
  \<^verbatim>\<open>__init__\<close> assigns (\<^verbatim>\<open>_attr_unique_id\<close>, \<^verbatim>\<open>_attr_device_class\<close>,
  \<^verbatim>\<open>_remootio_client\<close>, \<^verbatim>\<open>_attr_device_info\<close>; an Isabelle name cannot
  start with an underscore).
\<close>

record RemootioCover =
  attr_unique_id :: string
  attr_device_class :: string
  remootio_client :: RemootioClient
  attr_device_info :: DeviceInfo

text \<open>The class attributes of \<^verbatim>\<open>RemootioCover\<close>.\<close>

datatype CoverEntityFeature = FEATURE_OPEN | FEATURE_CLOSE

definition attr_has_entity_name :: bool where
  "attr_has_entity_name = True"

definition attr_should_poll :: bool where
  "attr_should_poll = False"

definition attr_supported_features :: "CoverEntityFeature set" where
  "attr_supported_features = {FEATURE_OPEN} \<union> {FEATURE_CLOSE}"

text \<open>
  The two listener classes; \<^verbatim>\<open>__init__\<close> stores the owner in
  \<^verbatim>\<open>_owner\<close>.
\<close>

datatype RemootioCoverStateChangeListener =
  RemootioCoverStateChangeListener (state_change_listener_owner: RemootioCover)

datatype RemootioCoverEventListener =
  RemootioCoverEventListener (event_listener_owner: RemootioCover)

subsection \<open>The external world\<close>

text \<open>
  Exceptions: \<^verbatim>\<open>KeyError\<close> of a subscript with a missing key, and whatever a
  collaborator raises.
\<close>

datatype exn = KeyError string | OtherError string

text \<open>The calls the module makes into code it does not own, with their arguments.\<close>

datatype call =
    Logger_debug string ConfigEntry string string "string \<rightharpoonup> RemootioClient"
  | Async_add_entities "RemootioCover list"
  | Add_state_change_listener RemootioClient RemootioCoverStateChangeListener
  | Add_event_listener RemootioClient RemootioCoverEventListener
  | Trigger_state_update RemootioClient
  | Trigger_open RemootioClient
  | Trigger_close RemootioClient
  | Async_write_ha_state RemootioCover
  | Bus_async_fire HomeAssistant string "string \<rightharpoonup> pyval"

text \<open>
  The interface to the external world \<open>'w\<close>:
  \<^item> \<open>perform\<close>: what a call does: the exception it raises, if any, and the world
    it leaves;
  \<^item> \<open>client_state\<close>, \<open>client_api_version\<close>: the client's properties
    \<^verbatim>\<open>state\<close> and \<^verbatim>\<open>api_version\<close>;
  \<^item> \<open>entity_id\<close>, \<open>entity_name\<close>, \<open>entity_hass\<close>: the attributes
    \<^verbatim>\<open>entity_id\<close>, \<^verbatim>\<open>name\<close> and \<^verbatim>\<open>hass\<close> that the host's base class
    gives to an entity;
  \<^item> \<open>hass_data\<close>: the host's shared storage \<^verbatim>\<open>hass.data\<close>, as the module
    uses it: domain, then entry id, then key.
\<close>

record 'w external =
  perform :: "call \<Rightarrow> 'w \<Rightarrow> exn option \<times> 'w"
  client_state :: "'w \<Rightarrow> RemootioClient \<Rightarrow> State"
  client_api_version :: "'w \<Rightarrow> RemootioClient \<Rightarrow> pyval"
  entity_id :: "'w \<Rightarrow> RemootioCover \<Rightarrow> pyval"
  entity_name :: "'w \<Rightarrow> RemootioCover \<Rightarrow> pyval"
  entity_hass :: "'w \<Rightarrow> RemootioCover \<Rightarrow> HomeAssistant"
  hass_data :: "'w \<Rightarrow> HomeAssistant \<Rightarrow> (string \<rightharpoonup> (string \<rightharpoonup> (string \<rightharpoonup> RemootioClient)))"

text \<open>
  The host's property \<^verbatim>\<open>Entity.unique_id\<close> returns \<^verbatim>\<open>_attr_unique_id\<close>.
\<close>

definition unique_id :: "RemootioCover \<Rightarrow> string" where
  "unique_id e = attr_unique_id e"

subsection \<open>The read-only properties\<close>

definition is_opening :: "'w external \<Rightarrow> 'w \<Rightarrow> RemootioCover \<Rightarrow> bool" where
  "is_opening X w self = (client_state X w (remootio_client self) = OPENING)"

definition is_closing :: "'w external \<Rightarrow> 'w \<Rightarrow> RemootioCover \<Rightarrow> bool" where
  "is_closing X w self = (client_state X w (remootio_client self) = CLOSING)"

definition is_closed :: "'w external \<Rightarrow> 'w \<Rightarrow> RemootioCover \<Rightarrow> bool option" where
  "is_closed X w self =
     (if client_state X w (remootio_client self) = NO_SENSOR_INSTALLED then None
      else Some (client_state X w (remootio_client self) = CLOSED))"

subsection \<open>Running the module's code\<close>

text \<open>
  The state of a run: the object the running method belongs to (\<^verbatim>\<open>self\<close>; the
  unit value for the module-level function), the external world, and the calls made
  into external code so far, oldest first.
\<close>

record ('s, 'w) st =
  self :: 's
  world :: 'w
  trace :: "call list"

text \<open>
  A piece of code maps the state to the exception it raises, if any, and the state it
  leaves. A call into external code is recorded in the trace whether it returns or
  raises.
\<close>

type_synonym ('s, 'w) code = "('s, 'w) st \<Rightarrow> exn option \<times> ('s, 'w) st"

definition do_call :: "'w external \<Rightarrow> call \<Rightarrow> ('s, 'w) code" where
  "do_call X c s =
     (case perform X c (world s) of
        (r, w') \<Rightarrow> (r, s\<lparr>world := w', trace := trace s @ [c]\<rparr>))"

text \<open>Two statements in sequence: an exception of the first skips the second.\<close>

definition then_do :: "('s, 'w) code \<Rightarrow> ('s, 'w) code \<Rightarrow> ('s, 'w) code" where
  "then_do p q s =
     (case p s of
        (None, s') \<Rightarrow> q s'
      | (Some e, s') \<Rightarrow> (Some e, s'))"

text \<open>Python's \<^verbatim>\<open>d[k]\<close> on a dictionary.\<close>

definition subscript :: "(string \<rightharpoonup> 'v) \<Rightarrow> string \<Rightarrow> exn + 'v" where
  "subscript d k = (case d k of None \<Rightarrow> Inl (KeyError k) | Some v \<Rightarrow> Inr v)"

subsection \<open>\<^verbatim>\<open>RemootioCover\<close>\<close>

text \<open>\<^verbatim>\<open>RemootioCover.__init__(self, unique_id, name, device_class, remootio_client)\<close>\<close>

definition RemootioCover_init ::
  "constants \<Rightarrow> 'w external \<Rightarrow> 'w \<Rightarrow> string \<Rightarrow> string \<Rightarrow> string \<Rightarrow> RemootioClient \<Rightarrow> RemootioCover"
where
  "RemootioCover_init K X w uid nm device_class client =
     \<lparr>attr_unique_id = uid,
      attr_device_class = device_class,
      remootio_client = client,
      attr_device_info =
        \<lparr>identifiers = {(DOMAIN K, uid)},
         name = nm,
         manufacturer = ''Assemblabs Ltd'',
         model = ''Remootio 3'',
         sw_version = str (client_api_version X w client)\<rparr>\<rparr>"

definition async_update :: "'w external \<Rightarrow> (RemootioCover, 'w) code" where
  "async_update X s = do_call X (Trigger_state_update (remootio_client (self s))) s"

definition async_added_to_hass :: "'w external \<Rightarrow> (RemootioCover, 'w) code" where
  "async_added_to_hass X =
     then_do
       (\<lambda>s. do_call X
          (Add_state_change_listener (remootio_client (self s))
             (RemootioCoverStateChangeListener (self s))) s)
       (then_do
          (\<lambda>s. do_call X
             (Add_event_listener (remootio_client (self s))
                (RemootioCoverEventListener (self s))) s)
          (async_update X))"

text \<open>The keyword arguments \<open>kwargs\<close> of the two commands are not used.\<close>

definition async_open_cover :: "'w external \<Rightarrow> 'k \<Rightarrow> (RemootioCover, 'w) code" where
  "async_open_cover X kwargs s = do_call X (Trigger_open (remootio_client (self s))) s"

definition async_close_cover :: "'w external \<Rightarrow> 'k \<Rightarrow> (RemootioCover, 'w) code" where
  "async_close_cover X kwargs s = do_call X (Trigger_close (remootio_client (self s))) s"

subsection \<open>The listeners\<close>

text \<open>
  \<^verbatim>\<open>RemootioCoverStateChangeListener.execute(self, client, subject)\<close>: neither
  argument is used, so the state change has any type.
\<close>

definition RemootioCoverStateChangeListener_execute ::
  "'w external \<Rightarrow> RemootioClient \<Rightarrow> 'c \<Rightarrow> (RemootioCoverStateChangeListener, 'w) code"
where
  "RemootioCoverStateChangeListener_execute X client subject s =
     do_call X (Async_write_ha_state (state_change_listener_owner (self s))) s"

text \<open>\<^verbatim>\<open>RemootioCoverEventListener.execute(self, client, subject)\<close>\<close>

definition RemootioCoverEventListener_execute ::
  "constants \<Rightarrow> 'w external \<Rightarrow> RemootioClient \<Rightarrow> Event \<Rightarrow> (RemootioCoverEventListener, 'w) code"
where
  "RemootioCoverEventListener_execute K X client subject s =
     (if type subject = LEFT_OPEN then
        (let owner = event_listener_owner (self s);
             event_type = lower (DOMAIN K) @ ''_'' @ lower (EventType_name (type subject))
         in do_call X
              (Bus_async_fire (entity_hass X (world s) owner) event_type
                 (Map.empty
                    (ATTR_ENTITY_ID K \<mapsto> entity_id X (world s) owner,
                     ATTR_SERIAL_NUMBER K \<mapsto> PyStr (unique_id owner),
                     ATTR_NAME K \<mapsto> entity_name X (world s) owner))) s)
      else (None, s))"

subsection \<open>Setting up the platform\<close>

text \<open>
  \<^verbatim>\<open>async_setup_entry(hass, config_entry, async_add_entities)\<close>. The arguments
  of the logger call are evaluated before the call, so a missing key of
  \<^verbatim>\<open>hass.data\<close> raises there. \<^verbatim>\<open>config_entry.as_dict()\<close> is passed to the
  logger as the entry itself. The callback \<^verbatim>\<open>async_add_entities\<close> is the call
  \<open>Async_add_entities\<close>.
\<close>

definition debug_format :: string where
  "debug_format = ''Doing async_setup_entry. config_entry [%s] hass.data[%s][%s] [%s]''"

definition async_setup_entry ::
  "constants \<Rightarrow> 'w external \<Rightarrow> HomeAssistant \<Rightarrow> ConfigEntry \<Rightarrow> (unit, 'w) code"
where
  "async_setup_entry K X hass config_entry s =
     (case subscript (hass_data X (world s) hass) (DOMAIN K) of
        Inl e \<Rightarrow> (Some e, s)
      | Inr by_entry \<Rightarrow>
     (case subscript by_entry (entry_id config_entry) of
        Inl e \<Rightarrow> (Some e, s)
      | Inr logged \<Rightarrow>
     (case do_call X
             (Logger_debug debug_format config_entry (DOMAIN K) (entry_id config_entry) logged) s of
        (Some e, s1) \<Rightarrow> (Some e, s1)
      | (None, s1) \<Rightarrow>
     (case subscript (data config_entry) (CONF_SERIAL_NUMBER K) of
        Inl e \<Rightarrow> (Some e, s1)
      | Inr serial_number \<Rightarrow>
     (case subscript (data config_entry) (CONF_DEVICE_CLASS K) of
        Inl e \<Rightarrow> (Some e, s1)
      | Inr device_class \<Rightarrow>
     (case subscript (hass_data X (world s1) hass) (DOMAIN K) of
        Inl e \<Rightarrow> (Some e, s1)
      | Inr by_entry1 \<Rightarrow>
     (case subscript by_entry1 (entry_id config_entry) of
        Inl e \<Rightarrow> (Some e, s1)
      | Inr entry_data \<Rightarrow>
     (case subscript entry_data (REMOOTIO_CLIENT K) of
        Inl e \<Rightarrow> (Some e, s1)
      | Inr client \<Rightarrow>
          do_call X
            (Async_add_entities
               [RemootioCover_init K X (world s1) serial_number (title config_entry)
                  device_class client]) s1))))))))"

subsection \<open>A concrete device for the examples\<close>

text \<open>
  The values the integration uses for its constants, a world that consists of the
  client's state alone, and a collaborator whose every call has the outcome \<open>r\<close>:
  the two commands move the door, every other call leaves the world as it is.
\<close>

definition example_constants :: constants where
  "example_constants =
     \<lparr>ATTR_SERIAL_NUMBER = ''serial_number'',
      CONF_SERIAL_NUMBER = ''serial_number'',
      DOMAIN = ''remootio'',
      REMOOTIO_CLIENT = ''remootio_client'',
      ATTR_ENTITY_ID = ''entity_id'',
      ATTR_NAME = ''name'',
      CONF_DEVICE_CLASS = ''device_class''\<rparr>"

definition example_external :: "exn option \<Rightarrow> State external" where
  "example_external r =
     \<lparr>perform = (\<lambda>c w. case c of
                    Trigger_open _ \<Rightarrow> (r, OPENING)
                  | Trigger_close _ \<Rightarrow> (r, CLOSING)
                  | _ \<Rightarrow> (r, w)),
      client_state = (\<lambda>w c. w),
      client_api_version = (\<lambda>w c. PyInt 3),
      entity_id = (\<lambda>w e. PyStr ''cover.garage''),
      entity_name = (\<lambda>w e. PyNone),
      entity_hass = (\<lambda>w e. HomeAssistant 0),
      hass_data = (\<lambda>w h.
        [''remootio'' \<mapsto> [''entry1'' \<mapsto> [''remootio_client'' \<mapsto> RemootioClient 1]]])\<rparr>"

definition example_config_entry :: ConfigEntry where
  "example_config_entry =
     \<lparr>data = [''serial_number'' \<mapsto> ''SN42'', ''device_class'' \<mapsto> ''garage''],
      entry_id = ''entry1'',
      title = ''Garage door''\<rparr>"

definition example_cover :: RemootioCover where
  "example_cover =
     \<lparr>attr_unique_id = ''SN42'',
      attr_device_class = ''garage'',
      remootio_client = RemootioClient 1,
      attr_device_info =
        \<lparr>identifiers = {(''remootio'', ''SN42'')},
         name = ''Garage door'',
         manufacturer = ''Assemblabs Ltd'',
         model = ''Remootio 3'',
         sw_version = ''3''\<rparr>\<rparr>"

definition example_event :: "EventType \<Rightarrow> Event" where
  "example_event t = \<lparr>type = t\<rparr>"

definition start :: "'s \<Rightarrow> 'w \<Rightarrow> ('s, 'w) st" where
  "start obj w = \<lparr>self = obj, world = w, trace = []\<rparr>"

section \<open>The read-only properties\<close>

text \<open>
  C1, as the specification states it, does not hold: every one of the three properties
  is said to return the comparison of the client's state with one member, and
  \<^verbatim>\<open>is_closed\<close> returns \<^verbatim>\<open>None\<close>, not the comparison (which is false),
  when the client's state is \<open>NO_SENSOR_INSTALLED\<close>.
\<close>

theorem is_closed_not_pass_through:
  "is_closed (example_external None) NO_SENSOR_INSTALLED example_cover
     \<noteq> Some (client_state (example_external None) NO_SENSOR_INSTALLED
                (remootio_client example_cover) = CLOSED)"
  by (simp add: is_closed_def example_external_def)

text \<open>
  C1, amended: for every state of the client, \<^verbatim>\<open>is_opening\<close> returns
  (state == OPENING) and \<^verbatim>\<open>is_closing\<close> returns (state == CLOSING); for every
  state of the client other than \<open>NO_SENSOR_INSTALLED\<close>, \<^verbatim>\<open>is_closed\<close> returns
  (state == CLOSED). The state is read from the client and not transformed.
\<close>

theorem properties_pass_through:
  "is_opening X w cover = (client_state X w (remootio_client cover) = OPENING)
   \<and> is_closing X w cover = (client_state X w (remootio_client cover) = CLOSING)
   \<and> (client_state X w (remootio_client cover) \<noteq> NO_SENSOR_INSTALLED \<longrightarrow>
        is_closed X w cover = Some (client_state X w (remootio_client cover) = CLOSED))"
  by (simp add: is_opening_def is_closing_def is_closed_def)

theorem properties_pass_through_witness:
  "client_state (example_external None) CLOSED (remootio_client example_cover) \<noteq> NO_SENSOR_INSTALLED
   \<and> is_opening (example_external None) CLOSED example_cover = False
   \<and> is_closing (example_external None) CLOSED example_cover = False
   \<and> is_closed (example_external None) CLOSED example_cover = Some True"
  using properties_pass_through [of "example_external None" CLOSED example_cover]
  by (simp add: example_external_def)

text \<open>
  C8: \<^verbatim>\<open>is_closed\<close> returns \<^verbatim>\<open>None\<close> if and only if the client's state is
  \<open>NO_SENSOR_INSTALLED\<close>; for every other state it returns the boolean
  (state == CLOSED). The other two properties return a boolean by their type.
\<close>

theorem is_closed_None_iff:
  "(is_closed X w cover = None) = (client_state X w (remootio_client cover) = NO_SENSOR_INSTALLED)
   \<and> (client_state X w (remootio_client cover) \<noteq> NO_SENSOR_INSTALLED \<longrightarrow>
        is_closed X w cover = Some (client_state X w (remootio_client cover) = CLOSED))"
  by (simp add: is_closed_def)

theorem is_closed_None_iff_witness:
  "client_state (example_external None) NO_SENSOR_INSTALLED (remootio_client example_cover)
     = NO_SENSOR_INSTALLED
   \<and> is_closed (example_external None) NO_SENSOR_INSTALLED example_cover = None
   \<and> client_state (example_external None) (OtherState ''OPEN'') (remootio_client example_cover)
     \<noteq> NO_SENSOR_INSTALLED
   \<and> is_closed (example_external None) (OtherState ''OPEN'') example_cover = Some False"
  using is_closed_None_iff [of "example_external None" NO_SENSOR_INSTALLED example_cover]
    is_closed_None_iff [of "example_external None" "OtherState ''OPEN''" example_cover]
  by (simp add: example_external_def)

text \<open>
  C9: for every state of the client, at most one of \<^verbatim>\<open>is_opening\<close>,
  \<^verbatim>\<open>is_closing\<close> and \<^verbatim>\<open>is_closed\<close> is \<^verbatim>\<open>True\<close>: among the three
  conditions, the number of those that hold is at most one.
\<close>

theorem indications_mutually_exclusive:
  "length (filter id
     [is_opening X w cover, is_closing X w cover, is_closed X w cover = Some True]) \<le> 1"
  by (simp add: is_opening_def is_closing_def is_closed_def)

section \<open>Calls into the client and the host\<close>

text \<open>What one call into external code does to the state of the run.\<close>

lemma do_call_eq:
  "do_call X c s =
     (fst (perform X c (world s)),
      s\<lparr>world := snd (perform X c (world s)), trace := trace s @ [c]\<rparr>)"
  by (simp add: do_call_def split: prod.split)

lemma lower_LEFT_OPEN: "lower ''LEFT_OPEN'' = ''left_open''"
  by code_simp

lemma lower_remootio: "lower ''remootio'' = ''remootio''"
  by code_simp

lemma str_PyInt_3: "str (PyInt 3) = ''3''"
  by code_simp

text \<open>
  C2: each command calls one method of the client, once, and does nothing else:
  \<^verbatim>\<open>async_open_cover\<close> is one call of \<^verbatim>\<open>trigger_open\<close> and
  \<^verbatim>\<open>async_close_cover\<close> is one call of \<^verbatim>\<open>trigger_close\<close>, for every state
  of the run, every behaviour of the client and any keyword arguments. The outcome and
  the world are those of that call, and the trace grows by that call alone.
\<close>

theorem commands_call_client_once:
  "async_open_cover X kwargs s =
     (fst (perform X (Trigger_open (remootio_client (self s))) (world s)),
      s\<lparr>world := snd (perform X (Trigger_open (remootio_client (self s))) (world s)),
        trace := trace s @ [Trigger_open (remootio_client (self s))]\<rparr>)
   \<and> async_close_cover X kwargs s =
     (fst (perform X (Trigger_close (remootio_client (self s))) (world s)),
      s\<lparr>world := snd (perform X (Trigger_close (remootio_client (self s))) (world s)),
        trace := trace s @ [Trigger_close (remootio_client (self s))]\<rparr>)"
  by (simp add: async_open_cover_def async_close_cover_def do_call_eq)

text \<open>
  C3: on activation (\<^verbatim>\<open>async_added_to_hass\<close>) the entity subscribes two listeners
  to its client, first a state-change listener and then an event listener, both owned
  by the entity, and afterwards asks the client for one state refresh
  (\<^verbatim>\<open>trigger_state_update\<close>). The calls follow one another when the one before
  returns, so the two subscriptions are assumed to return.
\<close>

theorem activation_subscribes_then_refreshes:
  assumes "perform X (Add_state_change_listener (remootio_client (self s))
                        (RemootioCoverStateChangeListener (self s))) (world s) = (None, w1)"
    and "perform X (Add_event_listener (remootio_client (self s))
                        (RemootioCoverEventListener (self s))) w1 = (None, w2)"
  shows "async_added_to_hass X s =
     (fst (perform X (Trigger_state_update (remootio_client (self s))) w2),
      s\<lparr>world := snd (perform X (Trigger_state_update (remootio_client (self s))) w2),
        trace := trace s @
          [Add_state_change_listener (remootio_client (self s))
             (RemootioCoverStateChangeListener (self s)),
           Add_event_listener (remootio_client (self s)) (RemootioCoverEventListener (self s)),
           Trigger_state_update (remootio_client (self s))]\<rparr>)"
  using assms
  by (simp add: async_added_to_hass_def then_do_def async_update_def do_call_eq)

theorem activation_subscribes_then_refreshes_witness:
  "perform (example_external None)
     (Add_state_change_listener (remootio_client (self (start example_cover CLOSED)))
        (RemootioCoverStateChangeListener (self (start example_cover CLOSED))))
     (world (start example_cover CLOSED)) = (None, CLOSED)
   \<and> perform (example_external None)
     (Add_event_listener (remootio_client (self (start example_cover CLOSED)))
        (RemootioCoverEventListener (self (start example_cover CLOSED)))) CLOSED = (None, CLOSED)
   \<and> async_added_to_hass (example_external None) (start example_cover CLOSED) =
     (None,
      \<lparr>self = example_cover, world = CLOSED,
        trace =
          [Add_state_change_listener (RemootioClient 1)
             (RemootioCoverStateChangeListener example_cover),
           Add_event_listener (RemootioClient 1) (RemootioCoverEventListener example_cover),
           Trigger_state_update (RemootioClient 1)]\<rparr>)"
  using activation_subscribes_then_refreshes
    [of "example_external None" "start example_cover CLOSED" CLOSED CLOSED]
  by (simp add: example_external_def start_def example_cover_def)

text \<open>
  C7: the two commands and the refresh handle no failure and retry nothing. When the
  client's method raises an exception, the operation raises that same exception, the
  method has been called once, and the fields of the entity are what they were.
\<close>

theorem errors_propagate:
  "(perform X (Trigger_open (remootio_client (self s))) (world s) = (Some e, w') \<longrightarrow>
      fst (async_open_cover X kwargs s) = Some e
      \<and> self (snd (async_open_cover X kwargs s)) = self s
      \<and> trace (snd (async_open_cover X kwargs s))
          = trace s @ [Trigger_open (remootio_client (self s))]
      \<and> world (snd (async_open_cover X kwargs s)) = w')
   \<and> (perform X (Trigger_close (remootio_client (self s))) (world s) = (Some e, w') \<longrightarrow>
      fst (async_close_cover X kwargs s) = Some e
      \<and> self (snd (async_close_cover X kwargs s)) = self s
      \<and> trace (snd (async_close_cover X kwargs s))
          = trace s @ [Trigger_close (remootio_client (self s))]
      \<and> world (snd (async_close_cover X kwargs s)) = w')
   \<and> (perform X (Trigger_state_update (remootio_client (self s))) (world s) = (Some e, w') \<longrightarrow>
      fst (async_update X s) = Some e
      \<and> self (snd (async_update X s)) = self s
      \<and> trace (snd (async_update X s))
          = trace s @ [Trigger_state_update (remootio_client (self s))]
      \<and> world (snd (async_update X s)) = w')"
  by (simp add: async_open_cover_def async_close_cover_def async_update_def do_call_def)

theorem errors_propagate_witness:
  "perform (example_external (Some (OtherError ''ConnectionError'')))
      (Trigger_open (remootio_client (self (start example_cover CLOSED))))
      (world (start example_cover CLOSED)) = (Some (OtherError ''ConnectionError''), OPENING)
   \<and> fst (async_open_cover (example_external (Some (OtherError ''ConnectionError''))) ()
        (start example_cover CLOSED)) = Some (OtherError ''ConnectionError'')
   \<and> self (snd (async_open_cover (example_external (Some (OtherError ''ConnectionError''))) ()
        (start example_cover CLOSED))) = example_cover
   \<and> trace (snd (async_open_cover (example_external (Some (OtherError ''ConnectionError''))) ()
        (start example_cover CLOSED))) = [Trigger_open (RemootioClient 1)]
   \<and> perform (example_external (Some (OtherError ''ConnectionError'')))
      (Trigger_close (remootio_client (self (start example_cover CLOSED))))
      (world (start example_cover CLOSED)) = (Some (OtherError ''ConnectionError''), CLOSING)
   \<and> fst (async_close_cover (example_external (Some (OtherError ''ConnectionError''))) ()
        (start example_cover CLOSED)) = Some (OtherError ''ConnectionError'')
   \<and> self (snd (async_close_cover (example_external (Some (OtherError ''ConnectionError''))) ()
        (start example_cover CLOSED))) = example_cover
   \<and> trace (snd (async_close_cover (example_external (Some (OtherError ''ConnectionError''))) ()
        (start example_cover CLOSED))) = [Trigger_close (RemootioClient 1)]
   \<and> perform (example_external (Some (OtherError ''ConnectionError'')))
      (Trigger_state_update (remootio_client (self (start example_cover CLOSED))))
      (world (start example_cover CLOSED)) = (Some (OtherError ''ConnectionError''), CLOSED)
   \<and> fst (async_update (example_external (Some (OtherError ''ConnectionError'')))
        (start example_cover CLOSED)) = Some (OtherError ''ConnectionError'')
   \<and> self (snd (async_update (example_external (Some (OtherError ''ConnectionError'')))
        (start example_cover CLOSED))) = example_cover
   \<and> trace (snd (async_update (example_external (Some (OtherError ''ConnectionError'')))
        (start example_cover CLOSED))) = [Trigger_state_update (RemootioClient 1)]"
  using
    errors_propagate [of "example_external (Some (OtherError ''ConnectionError''))"
      "start example_cover CLOSED" "OtherError ''ConnectionError''" OPENING "()"]
    errors_propagate [of "example_external (Some (OtherError ''ConnectionError''))"
      "start example_cover CLOSED" "OtherError ''ConnectionError''" CLOSING "()"]
    errors_propagate [of "example_external (Some (OtherError ''ConnectionError''))"
      "start example_cover CLOSED" "OtherError ''ConnectionError''" CLOSED "()"]
  by (simp add: example_external_def start_def example_cover_def)

section \<open>The listeners\<close>

text \<open>
  C5: for every notification of a state change, whatever the client and the state
  change are, \<^verbatim>\<open>execute\<close> of the state-change listener is one call of
  \<^verbatim>\<open>async_write_ha_state\<close> on the owner, and nothing else.
\<close>

theorem state_change_republishes:
  "RemootioCoverStateChangeListener_execute X client subject s =
     (fst (perform X (Async_write_ha_state (state_change_listener_owner (self s))) (world s)),
      s\<lparr>world :=
          snd (perform X (Async_write_ha_state (state_change_listener_owner (self s))) (world s)),
        trace := trace s @ [Async_write_ha_state (state_change_listener_owner (self s))]\<rparr>)"
  by (simp add: RemootioCoverStateChangeListener_execute_def do_call_eq)

text \<open>
  C4: for every event of the device whose type is \<open>LEFT_OPEN\<close>, \<^verbatim>\<open>execute\<close>
  of the event listener fires one event on the bus of the owner's host. Its payload
  has three attributes, and no other: the entity id, the serial number (the unique id)
  and the name of the owner. The three attribute names are constants of modules that
  are not part of the file, and are assumed to differ from one another.
\<close>

theorem left_open_fires_event:
  assumes "type subject = LEFT_OPEN"
    and "distinct [ATTR_ENTITY_ID K, ATTR_SERIAL_NUMBER K, ATTR_NAME K]"
  shows "\<exists>event_type payload.
     trace (snd (RemootioCoverEventListener_execute K X client subject s)) =
         trace s @ [Bus_async_fire (entity_hass X (world s) (event_listener_owner (self s)))
                      event_type payload]
     \<and> event_type = lower (DOMAIN K) @ ''_left_open''
     \<and> dom payload = {ATTR_ENTITY_ID K, ATTR_SERIAL_NUMBER K, ATTR_NAME K}
     \<and> card (dom payload) = 3
     \<and> payload (ATTR_ENTITY_ID K) = Some (entity_id X (world s) (event_listener_owner (self s)))
     \<and> payload (ATTR_SERIAL_NUMBER K) = Some (PyStr (attr_unique_id (event_listener_owner (self s))))
     \<and> payload (ATTR_NAME K) = Some (entity_name X (world s) (event_listener_owner (self s)))"
proof -
  define owner where "owner = event_listener_owner (self s)"
  define payload where "payload =
    Map.empty (ATTR_ENTITY_ID K \<mapsto> entity_id X (world s) owner,
               ATTR_SERIAL_NUMBER K \<mapsto> PyStr (unique_id owner),
               ATTR_NAME K \<mapsto> entity_name X (world s) owner)"
  define event_type where "event_type = lower (DOMAIN K) @ ''_left_open''"
  have run: "RemootioCoverEventListener_execute K X client subject s =
      do_call X (Bus_async_fire (entity_hass X (world s) owner) event_type payload) s"
    using assms(1)
    by (simp add: RemootioCoverEventListener_execute_def Let_def lower_LEFT_OPEN
        owner_def payload_def event_type_def)
  have tr: "trace (snd (RemootioCoverEventListener_execute K X client subject s)) =
      trace s @ [Bus_async_fire (entity_hass X (world s) owner) event_type payload]"
    by (simp add: run do_call_eq)
  have d: "dom payload = {ATTR_ENTITY_ID K, ATTR_SERIAL_NUMBER K, ATTR_NAME K}"
    by (auto simp: payload_def)
  have c: "card (dom payload) = 3"
    using assms(2) by (simp add: d)
  have v1: "payload (ATTR_ENTITY_ID K) = Some (entity_id X (world s) owner)"
    using assms(2) by (simp add: payload_def)
  have v2: "payload (ATTR_SERIAL_NUMBER K) = Some (PyStr (attr_unique_id owner))"
    using assms(2) by (simp add: payload_def unique_id_def)
  have v3: "payload (ATTR_NAME K) = Some (entity_name X (world s) owner)"
    by (simp add: payload_def)
  from tr d c v1 v2 v3 show ?thesis
    unfolding owner_def event_type_def by blast
qed

theorem left_open_fires_event_witness:
  "type (example_event LEFT_OPEN) = LEFT_OPEN
   \<and> distinct [ATTR_ENTITY_ID example_constants, ATTR_SERIAL_NUMBER example_constants,
        ATTR_NAME example_constants]
   \<and> (\<exists>payload.
        trace (snd (RemootioCoverEventListener_execute example_constants (example_external None)
          (RemootioClient 1) (example_event LEFT_OPEN)
          (start (RemootioCoverEventListener example_cover) (OtherState ''OPEN'')))) =
            [Bus_async_fire (HomeAssistant 0) ''remootio_left_open'' payload]
        \<and> dom payload = {''entity_id'', ''serial_number'', ''name''}
        \<and> payload ''entity_id'' = Some (PyStr ''cover.garage'')
        \<and> payload ''serial_number'' = Some (PyStr ''SN42'')
        \<and> payload ''name'' = Some PyNone)"
proof -
  have h1: "type (example_event LEFT_OPEN) = LEFT_OPEN"
    by (simp add: example_event_def)
  have h2: "distinct [ATTR_ENTITY_ID example_constants, ATTR_SERIAL_NUMBER example_constants,
        ATTR_NAME example_constants]"
    by (simp add: example_constants_def)
  from left_open_fires_event [OF h1 h2, of "example_external None" "RemootioClient 1"
        "start (RemootioCoverEventListener example_cover) (OtherState ''OPEN'')"]
  obtain event_type payload where
    tr: "trace (snd (RemootioCoverEventListener_execute example_constants (example_external None)
          (RemootioClient 1) (example_event LEFT_OPEN)
          (start (RemootioCoverEventListener example_cover) (OtherState ''OPEN'')))) =
        trace (start (RemootioCoverEventListener example_cover) (OtherState ''OPEN'')) @
          [Bus_async_fire
             (entity_hass (example_external None)
                (world (start (RemootioCoverEventListener example_cover) (OtherState ''OPEN'')))
                (event_listener_owner
                   (self (start (RemootioCoverEventListener example_cover) (OtherState ''OPEN'')))))
             event_type payload]"
    and et: "event_type = lower (DOMAIN example_constants) @ ''_left_open''"
    and d: "dom payload = {ATTR_ENTITY_ID example_constants, ATTR_SERIAL_NUMBER example_constants,
        ATTR_NAME example_constants}"
    and v1: "payload (ATTR_ENTITY_ID example_constants) =
        Some (entity_id (example_external None)
          (world (start (RemootioCoverEventListener example_cover) (OtherState ''OPEN'')))
          (event_listener_owner
             (self (start (RemootioCoverEventListener example_cover) (OtherState ''OPEN'')))))"
    and v2: "payload (ATTR_SERIAL_NUMBER example_constants) =
        Some (PyStr (attr_unique_id (event_listener_owner
          (self (start (RemootioCoverEventListener example_cover) (OtherState ''OPEN''))))))"
    and v3: "payload (ATTR_NAME example_constants) =
        Some (entity_name (example_external None)
          (world (start (RemootioCoverEventListener example_cover) (OtherState ''OPEN'')))
          (event_listener_owner
             (self (start (RemootioCoverEventListener example_cover) (OtherState ''OPEN'')))))"
    by blast
  have t: "trace (snd (RemootioCoverEventListener_execute example_constants (example_external None)
          (RemootioClient 1) (example_event LEFT_OPEN)
          (start (RemootioCoverEventListener example_cover) (OtherState ''OPEN'')))) =
            [Bus_async_fire (HomeAssistant 0) ''remootio_left_open'' payload]"
    unfolding tr using et
    by (simp add: start_def example_external_def example_constants_def lower_remootio)
  have d': "dom payload = {''entity_id'', ''serial_number'', ''name''}"
    using d by (simp add: example_constants_def)
  have v1': "payload ''entity_id'' = Some (PyStr ''cover.garage'')"
    using v1 by (simp add: example_constants_def example_external_def)
  have v2': "payload ''serial_number'' = Some (PyStr ''SN42'')"
    using v2 by (simp add: example_constants_def start_def example_cover_def)
  have v3': "payload ''name'' = Some PyNone"
    using v3 by (simp add: example_constants_def example_external_def)
  from h1 h2 t d' v1' v2' v3' show ?thesis
    by blast
qed

text \<open>
  C10: for every event of the device whose type is not \<open>LEFT_OPEN\<close>,
  \<^verbatim>\<open>execute\<close> of the event listener returns without a call: no event is fired,
  and the world and the trace are what they were.
\<close>

theorem other_events_ignored:
  "type subject \<noteq> LEFT_OPEN \<Longrightarrow>
     RemootioCoverEventListener_execute K X client subject s = (None, s)"
  by (simp add: RemootioCoverEventListener_execute_def)

theorem other_events_ignored_witness:
  "type (example_event (OtherEventType ''RESTART'')) \<noteq> LEFT_OPEN
   \<and> RemootioCoverEventListener_execute example_constants (example_external None)
        (RemootioClient 1) (example_event (OtherEventType ''RESTART''))
        (start (RemootioCoverEventListener example_cover) CLOSED)
      = (None, start (RemootioCoverEventListener example_cover) CLOSED)"
  using other_events_ignored [of "example_event (OtherEventType ''RESTART'')" example_constants
     "example_external None" "RemootioClient 1"
     "start (RemootioCoverEventListener example_cover) CLOSED"]
  by (simp add: example_event_def)

section \<open>Setting up the platform\<close>

text \<open>
  C6: \<^verbatim>\<open>async_setup_entry\<close> reads two values from the data of the configuration
  entry, the serial number and the device class, reads the client from the host's
  shared storage, and registers one entity through the callback: the entity that
  \<^verbatim>\<open>RemootioCover.__init__\<close> builds from the serial number, the title of the
  entry, the device class and the client. The values read are assumed to be present,
  and the call of the logger before them to return.
\<close>

theorem setup_registers_one_entity:
  assumes "hass_data X (world s) hass (DOMAIN K) = Some by_entry"
    and "by_entry (entry_id config_entry) = Some logged"
    and "perform X (Logger_debug debug_format config_entry (DOMAIN K) (entry_id config_entry)
           logged) (world s) = (None, w1)"
    and "data config_entry (CONF_SERIAL_NUMBER K) = Some serial_number"
    and "data config_entry (CONF_DEVICE_CLASS K) = Some device_class"
    and "hass_data X w1 hass (DOMAIN K) = Some by_entry1"
    and "by_entry1 (entry_id config_entry) = Some entry_data"
    and "entry_data (REMOOTIO_CLIENT K) = Some client"
  shows "async_setup_entry K X hass config_entry s =
     (fst (perform X (Async_add_entities
             [RemootioCover_init K X w1 serial_number (title config_entry) device_class client]) w1),
      s\<lparr>world := snd (perform X (Async_add_entities
             [RemootioCover_init K X w1 serial_number (title config_entry) device_class client]) w1),
        trace := trace s @
          [Logger_debug debug_format config_entry (DOMAIN K) (entry_id config_entry) logged,
           Async_add_entities
             [RemootioCover_init K X w1 serial_number (title config_entry) device_class client]]\<rparr>)"
  using assms
  by (simp add: async_setup_entry_def subscript_def do_call_eq)

theorem setup_registers_one_entity_witness:
  "hass_data (example_external None) (world (start () CLOSED)) (HomeAssistant 0)
      (DOMAIN example_constants)
     = Some [''entry1'' \<mapsto> [''remootio_client'' \<mapsto> RemootioClient 1]]
   \<and> [''entry1'' \<mapsto> [''remootio_client'' \<mapsto> RemootioClient 1]] (entry_id example_config_entry)
     = Some [''remootio_client'' \<mapsto> RemootioClient 1]
   \<and> perform (example_external None)
        (Logger_debug debug_format example_config_entry (DOMAIN example_constants)
           (entry_id example_config_entry) [''remootio_client'' \<mapsto> RemootioClient 1])
        (world (start () CLOSED)) = (None, CLOSED)
   \<and> data example_config_entry (CONF_SERIAL_NUMBER example_constants) = Some ''SN42''
   \<and> data example_config_entry (CONF_DEVICE_CLASS example_constants) = Some ''garage''
   \<and> hass_data (example_external None) CLOSED (HomeAssistant 0) (DOMAIN example_constants)
     = Some [''entry1'' \<mapsto> [''remootio_client'' \<mapsto> RemootioClient 1]]
   \<and> [''remootio_client'' \<mapsto> RemootioClient 1] (REMOOTIO_CLIENT example_constants)
     = Some (RemootioClient 1)
   \<and> async_setup_entry example_constants (example_external None) (HomeAssistant 0)
        example_config_entry (start () CLOSED) =
      (None,
       \<lparr>self = (), world = CLOSED,
         trace =
           [Logger_debug debug_format example_config_entry ''remootio'' ''entry1''
              [''remootio_client'' \<mapsto> RemootioClient 1],
            Async_add_entities [example_cover]]\<rparr>)"
proof -
  let ?X = "example_external None"
  let ?K = "example_constants"
  let ?c = "[''remootio_client'' \<mapsto> RemootioClient 1]"
  let ?d = "[''entry1'' \<mapsto> ?c]"
  have h1: "hass_data ?X (world (start () CLOSED)) (HomeAssistant 0) (DOMAIN ?K) = Some ?d"
    by (simp add: example_external_def example_constants_def)
  have h2: "?d (entry_id example_config_entry) = Some ?c"
    by (simp add: example_config_entry_def)
  have h3: "perform ?X (Logger_debug debug_format example_config_entry (DOMAIN ?K)
           (entry_id example_config_entry) ?c) (world (start () CLOSED)) = (None, CLOSED)"
    by (simp add: example_external_def start_def)
  have h4: "data example_config_entry (CONF_SERIAL_NUMBER ?K) = Some ''SN42''"
    by (simp add: example_config_entry_def example_constants_def)
  have h5: "data example_config_entry (CONF_DEVICE_CLASS ?K) = Some ''garage''"
    by (simp add: example_config_entry_def example_constants_def)
  have h6: "hass_data ?X CLOSED (HomeAssistant 0) (DOMAIN ?K) = Some ?d"
    by (simp add: example_external_def example_constants_def)
  have h8: "?c (REMOOTIO_CLIENT ?K) = Some (RemootioClient 1)"
    by (simp add: example_constants_def)
  have e: "RemootioCover_init ?K ?X CLOSED ''SN42'' (title example_config_entry) ''garage''
      (RemootioClient 1) = example_cover"
    by (simp add: RemootioCover_init_def example_cover_def example_constants_def
        example_external_def example_config_entry_def str_PyInt_3 del: str.simps)
  have p: "perform ?X (Async_add_entities [example_cover]) CLOSED = (None, CLOSED)"
    by (simp add: example_external_def)
  have "async_setup_entry ?K ?X (HomeAssistant 0) example_config_entry (start () CLOSED) =
      (None,
       \<lparr>self = (), world = CLOSED,
         trace =
           [Logger_debug debug_format example_config_entry ''remootio'' ''entry1'' ?c,
            Async_add_entities [example_cover]]\<rparr>)"
    unfolding setup_registers_one_entity [OF h1 h2 h3 h4 h5 h6 h2 h8] e p
    by (simp add: start_def example_constants_def example_config_entry_def)
  with h1 h2 h3 h4 h5 h6 h8 show ?thesis
    by blast
qed

end
